theory Spec2Isabelle
  imports Main "HOL-Library.Word"
begin

section \<open>The constant-propagation lattice\<close>

text \<open>
  The lattice of \<^verbatim>\<open>SingleVarConstantPropagationTest.cpp\<close> tracks one integer variable.
  A \<^verbatim>\<open>const VarDecl *\<close> is either the null pointer or the address of a declaration node.
\<close>

datatype VarDeclPtr = nullptr | VarDeclAt nat

record VarValue =
  Var :: VarDeclPtr
  Value :: "64 word"

text \<open>\<^verbatim>\<open>llvm::Optional<VarValue> Data\<close>: \<open>None\<close> is "bottom".\<close>

record ConstantPropagationLattice =
  Data :: "VarValue option"

definition bottom :: ConstantPropagationLattice where
  "bottom = \<lparr>Data = None\<rparr>"

text \<open>\<^verbatim>\<open>top()\<close> returns \<^verbatim>\<open>{VarValue{nullptr, 0}}\<close>.\<close>

definition top_lattice :: ConstantPropagationLattice where
  "top_lattice = \<lparr>Data = Some \<lparr>Var = nullptr, Value = 0\<rparr>\<rparr>"

text \<open>The three \<^verbatim>\<open>operator==\<close>: on \<^verbatim>\<open>VarValue\<close>, on \<^verbatim>\<open>llvm::Optional\<close>, on the lattice.\<close>

definition VarValue_eq :: "VarValue \<Rightarrow> VarValue \<Rightarrow> bool" where
  "VarValue_eq Lhs Rhs \<longleftrightarrow> Var Lhs = Var Rhs \<and> Value Lhs = Value Rhs"

definition Optional_eq :: "VarValue option \<Rightarrow> VarValue option \<Rightarrow> bool" where
  "Optional_eq X Y =
     (case X of
        None \<Rightarrow> (case Y of None \<Rightarrow> True | Some y \<Rightarrow> False)
      | Some x \<Rightarrow> (case Y of None \<Rightarrow> False | Some y \<Rightarrow> VarValue_eq x y))"

definition lattice_eq :: "ConstantPropagationLattice \<Rightarrow> ConstantPropagationLattice \<Rightarrow> bool" where
  "lattice_eq Lhs Rhs = Optional_eq (Data Lhs) (Data Rhs)"

datatype LatticeJoinEffect = Unchanged | Changed

text \<open>
  \<^verbatim>\<open>join\<close> mutates the receiver and reports whether it changed: the model returns the
  effect together with the receiver's new value.
\<close>

definition join ::
  "ConstantPropagationLattice \<Rightarrow> ConstantPropagationLattice
     \<Rightarrow> LatticeJoinEffect \<times> ConstantPropagationLattice" where
  "join This Other =
     (if lattice_eq This Other \<or> lattice_eq Other bottom \<or> lattice_eq This top_lattice
        then (Unchanged, This)
      else if lattice_eq This bottom
        then (Changed, Other)
      else (Changed, top_lattice))"

text \<open>The receiver after \<^verbatim>\<open>A.join(B)\<close>.\<close>

definition joined :: "ConstantPropagationLattice \<Rightarrow> ConstantPropagationLattice
     \<Rightarrow> ConstantPropagationLattice" where
  "joined A B = snd (join A B)"

text \<open>The order induced by \<open>join\<close>: \<open>X\<close> is below \<open>Y\<close> when joining \<open>X\<close> into \<open>Y\<close> gives \<open>Y\<close>.\<close>

definition lattice_le :: "ConstantPropagationLattice \<Rightarrow> ConstantPropagationLattice \<Rightarrow> bool" where
  "lattice_le X Y = lattice_eq (joined X Y) Y"

text \<open>
  The order of the lattice, written out without \<open>join\<close>: \<open>bottom\<close> is below every element,
  \<open>top\<close> is above every element, and any other two elements are comparable only when they
  are equal (bottom < known value < top, height 2). Least upper bounds are taken in it.
\<close>

definition flat_le :: "ConstantPropagationLattice \<Rightarrow> ConstantPropagationLattice \<Rightarrow> bool" where
  "flat_le X Y \<longleftrightarrow> X = bottom \<or> Y = top_lattice \<or> X = Y"

text \<open>A known value: some variable (not the null sentinel) with its constant.\<close>

definition known :: "nat \<Rightarrow> 64 word \<Rightarrow> ConstantPropagationLattice" where
  "known a v = \<lparr>Data = Some \<lparr>Var = VarDeclAt a, Value = v\<rparr>\<rparr>"

section \<open>The statements the transfer function inspects\<close>

text \<open>
  Modelled from the spec: the Clang AST, which is not under src/. The fragment below
  carries what \<^verbatim>\<open>transfer\<close> looks at: the opcode of a binary operator, the declaration
  a \<^verbatim>\<open>DeclRefExpr\<close> refers to, and the type and initializer of a declared variable.
\<close>

datatype BinaryOperatorKind =
    BO_PtrMemD | BO_PtrMemI
  | BO_Mul | BO_Div | BO_Rem | BO_Add | BO_Sub | BO_Shl | BO_Shr
  | BO_Cmp | BO_LT | BO_GT | BO_LE | BO_GE | BO_EQ | BO_NE
  | BO_And | BO_Xor | BO_Or | BO_LAnd | BO_LOr
  | BO_Assign | BO_MulAssign | BO_DivAssign | BO_RemAssign | BO_AddAssign | BO_SubAssign
  | BO_ShlAssign | BO_ShrAssign | BO_AndAssign | BO_XorAssign | BO_OrAssign
  | BO_Comma

text \<open>The declaration a \<^verbatim>\<open>DeclRefExpr\<close> names: a \<^verbatim>\<open>VarDecl\<close> at an address, or another kind.\<close>

datatype DeclRef = ToVarDecl nat | ToOtherDecl nat

datatype Expr =
    IntegerLiteral int
  | DeclRefExpr DeclRef
  | BinaryOperator BinaryOperatorKind Expr Expr
  | UnaryOperator string Expr
  | CallExpr Expr "Expr list"
  | ImplicitCastExpr Expr
  | CStyleCastExpr Expr
  | ParenExpr Expr

text \<open>
  A declaration inside a \<^verbatim>\<open>DeclStmt\<close>: a variable with its address, whether its type is
  an integer type, and its initializer if it has one; or some other declaration.
\<close>

datatype Decl = VarDecl nat bool "Expr option" | OtherDecl

text \<open>\<^verbatim>\<open>Expr\<close> derives from \<^verbatim>\<open>Stmt\<close>: \<open>ExprS\<close> is an expression standing as a statement.\<close>

datatype Stmt =
    DeclStmt "Decl list"
  | ExprS Expr
  | ReturnStmt "Expr option"
  | NullStmt

text \<open>
  Modelled from the spec: \<^verbatim>\<open>BinaryOperator::getOpcodeStr\<close>, \<^verbatim>\<open>hasOperatorName\<close> and
  \<^verbatim>\<open>isAssignmentOperator\<close> of Clang, which are not under src/. A simple assignment is
  the operator \<^verbatim>\<open>=\<close>; the assignment operators are \<^verbatim>\<open>=\<close> and the compound ones
  (\<^verbatim>\<open>+=\<close>, \<^verbatim>\<open>-=\<close>, etc.).
\<close>

fun getOpcodeStr :: "BinaryOperatorKind \<Rightarrow> string" where
  "getOpcodeStr BO_PtrMemD = ''.*''"
| "getOpcodeStr BO_PtrMemI = ''->*''"
| "getOpcodeStr BO_Mul = ''*''"
| "getOpcodeStr BO_Div = ''/''"
| "getOpcodeStr BO_Rem = ''%''"
| "getOpcodeStr BO_Add = ''+''"
| "getOpcodeStr BO_Sub = ''-''"
| "getOpcodeStr BO_Shl = ''<<''"
| "getOpcodeStr BO_Shr = ''>>''"
| "getOpcodeStr BO_Cmp = ''<=>''"
| "getOpcodeStr BO_LT = ''<''"
| "getOpcodeStr BO_GT = ''>''"
| "getOpcodeStr BO_LE = ''<=''"
| "getOpcodeStr BO_GE = ''>=''"
| "getOpcodeStr BO_EQ = ''==''"
| "getOpcodeStr BO_NE = ''!=''"
| "getOpcodeStr BO_And = ''&''"
| "getOpcodeStr BO_Xor = ''^''"
| "getOpcodeStr BO_Or = ''|''"
| "getOpcodeStr BO_LAnd = ''&&''"
| "getOpcodeStr BO_LOr = ''||''"
| "getOpcodeStr BO_Assign = ''=''"
| "getOpcodeStr BO_MulAssign = ''*=''"
| "getOpcodeStr BO_DivAssign = ''/=''"
| "getOpcodeStr BO_RemAssign = ''%=''"
| "getOpcodeStr BO_AddAssign = ''+=''"
| "getOpcodeStr BO_SubAssign = ''-=''"
| "getOpcodeStr BO_ShlAssign = ''<<=''"
| "getOpcodeStr BO_ShrAssign = ''>>=''"
| "getOpcodeStr BO_AndAssign = ''&=''"
| "getOpcodeStr BO_XorAssign = ''^=''"
| "getOpcodeStr BO_OrAssign = ''|=''"
| "getOpcodeStr BO_Comma = '',''"

definition hasOperatorName :: "string \<Rightarrow> BinaryOperatorKind \<Rightarrow> bool" where
  "hasOperatorName Name Opc \<longleftrightarrow> getOpcodeStr Opc = Name"

definition isAssignmentOperator :: "BinaryOperatorKind \<Rightarrow> bool" where
  "isAssignmentOperator Opc \<longleftrightarrow>
     Opc \<in> set [BO_Assign, BO_MulAssign, BO_DivAssign, BO_RemAssign, BO_AddAssign,
                BO_SubAssign, BO_ShlAssign, BO_ShrAssign, BO_AndAssign, BO_XorAssign,
                BO_OrAssign]"

text \<open>The compound assignments: every assignment operator but \<^verbatim>\<open>=\<close>.\<close>

definition isCompoundAssignment :: "BinaryOperatorKind \<Rightarrow> bool" where
  "isCompoundAssignment Opc \<longleftrightarrow> isAssignmentOperator Opc \<and> Opc \<noteq> BO_Assign"

section \<open>Bound nodes and the matcher\<close>

definition kVar :: string where "kVar = ''var''"
definition kInit :: string where "kInit = ''init''"
definition kJustAssignment :: string where "kJustAssignment = ''just-assignment''"
definition kAssignment :: string where "kAssignment = ''assignment''"
definition kRHS :: string where "kRHS = ''rhs''"

text \<open>
  Modelled from the spec: \<^verbatim>\<open>BoundNodes\<close> of the matcher library, which is not under src/.
  A match binds identifiers to AST nodes: a variable declaration (by its address) or an
  expression.
\<close>

datatype DynTypedNode = VarDeclNode nat | ExprNode Expr

type_synonym BoundNodes = "string \<rightharpoonup> DynTypedNode"

text \<open>
  \<^verbatim>\<open>getNodeAs<T>(ID)\<close> returns the node bound to \<open>ID\<close> when it has type \<open>T\<close>, and the null
  pointer otherwise. A bound declaration lives at its address, so the pointer to it is
  never null.
\<close>

definition getNodeAs_VarDecl :: "BoundNodes \<Rightarrow> string \<Rightarrow> VarDeclPtr" where
  "getNodeAs_VarDecl Nodes ID =
     (case Nodes ID of
        Some (VarDeclNode a) \<Rightarrow> VarDeclAt a
      | Some (ExprNode E) \<Rightarrow> nullptr
      | None \<Rightarrow> nullptr)"

text \<open>For an expression, \<open>None\<close> stands for the null pointer.\<close>

definition getNodeAs_Expr :: "BoundNodes \<Rightarrow> string \<Rightarrow> Expr option" where
  "getNodeAs_Expr Nodes ID =
     (case Nodes ID of
        Some (ExprNode E) \<Rightarrow> Some E
      | Some (VarDeclNode a) \<Rightarrow> None
      | None \<Rightarrow> None)"

text \<open>
  Modelled from the spec: the AST matcher library of Clang, which is not under src/. A
  matcher takes a node and the bindings made so far and returns the extended bindings,
  or \<open>None\<close> when the node does not match. The three alternatives are those written in
  \<^verbatim>\<open>transfer\<close>; \<^verbatim>\<open>anyOf\<close> takes the first alternative that matches.
\<close>

text \<open>\<^verbatim>\<open>declRefExpr(to(varDecl().bind(kVar)))\<close>\<close>

fun refToVar :: "Expr \<Rightarrow> BoundNodes \<Rightarrow> BoundNodes option" where
  "refToVar (DeclRefExpr (ToVarDecl a)) B = Some (B(kVar \<mapsto> VarDeclNode a))"
| "refToVar E B = None"

text \<open>
  \<^verbatim>\<open>declStmt(hasSingleDecl(varDecl(hasType(isInteger()),
  hasInitializer(expr().bind(kInit))).bind(kVar)))\<close>
\<close>

fun declMatcher :: "Stmt \<Rightarrow> BoundNodes \<Rightarrow> BoundNodes option" where
  "declMatcher (DeclStmt [VarDecl a isInteger (Some E)]) B =
     (if isInteger then Some (B(kInit \<mapsto> ExprNode E, kVar \<mapsto> VarDeclNode a)) else None)"
| "declMatcher S B = None"

text \<open>
  \<^verbatim>\<open>binaryOperator(hasOperatorName("="), hasLHS(refToVar()),
  hasRHS(expr().bind(kRHS))).bind(kJustAssignment)\<close>
\<close>

fun justAssignmentMatcher :: "Stmt \<Rightarrow> BoundNodes \<Rightarrow> BoundNodes option" where
  "justAssignmentMatcher (ExprS (BinaryOperator Opc L R)) B =
     (if hasOperatorName ''='' Opc then
        (case refToVar L B of
           None \<Rightarrow> None
         | Some B1 \<Rightarrow>
             Some (B1(kRHS \<mapsto> ExprNode R,
                      kJustAssignment \<mapsto> ExprNode (BinaryOperator Opc L R))))
      else None)"
| "justAssignmentMatcher S B = None"

text \<open>\<^verbatim>\<open>binaryOperator(isAssignmentOperator(), hasLHS(refToVar())).bind(kAssignment)\<close>\<close>

fun assignmentMatcher :: "Stmt \<Rightarrow> BoundNodes \<Rightarrow> BoundNodes option" where
  "assignmentMatcher (ExprS (BinaryOperator Opc L R)) B =
     (if isAssignmentOperator Opc then
        (case refToVar L B of
           None \<Rightarrow> None
         | Some B1 \<Rightarrow> Some (B1(kAssignment \<mapsto> ExprNode (BinaryOperator Opc L R))))
      else None)"
| "assignmentMatcher S B = None"

fun anyOf :: "(Stmt \<Rightarrow> BoundNodes \<Rightarrow> BoundNodes option) list
     \<Rightarrow> Stmt \<Rightarrow> BoundNodes \<Rightarrow> BoundNodes option" where
  "anyOf [] S B = None"
| "anyOf (M # Ms) S B = (case M S B of Some B1 \<Rightarrow> Some B1 | None \<Rightarrow> anyOf Ms S B)"

definition matcher :: "Stmt \<Rightarrow> BoundNodes \<Rightarrow> BoundNodes option" where
  "matcher = anyOf [declMatcher, justAssignmentMatcher, assignmentMatcher]"

text \<open>\<^verbatim>\<open>match(matcher, *S, Context)\<close>: the list of results, empty when \<open>S\<close> does not match.\<close>

definition match :: "Stmt \<Rightarrow> BoundNodes list" where
  "match S = (case matcher S Map.empty of None \<Rightarrow> [] | Some B \<Rightarrow> [B])"

section \<open>The transfer function\<close>

text \<open>
  The result of \<^verbatim>\<open>Expr::EvaluateAsInt\<close> (not under src/) is a parameter of the model:
  \<open>None\<close> when the call returns false, otherwise the value it stored, which is an integer
  (given by what \<^verbatim>\<open>getInt().getExtValue()\<close> returns) or not.
\<close>

datatype APValue = APValue_Int "64 word" | APValue_Other

type_synonym Evaluator = "Expr \<Rightarrow> APValue option"

datatype error = AssertionFailed string

text \<open>
  \<^verbatim>\<open>transfer(S, Element, Env)\<close> updates \<open>Element\<close> in place; the model returns the new
  element, or the assertion that failed. \<open>Env\<close> is never used and is left out.
\<close>

definition transfer ::
  "Evaluator \<Rightarrow> Stmt \<Rightarrow> ConstantPropagationLattice \<Rightarrow> error + ConstantPropagationLattice" where
  "transfer EvaluateAsInt S Element =
     (case match S of
        [] \<Rightarrow> Inr Element
      | Nodes # Rest \<Rightarrow>
          (case getNodeAs_VarDecl Nodes kVar of
             nullptr \<Rightarrow> Inl (AssertionFailed ''Var != nullptr'')
           | VarDeclAt a \<Rightarrow>
               (case getNodeAs_Expr Nodes kInit of
                  Some E \<Rightarrow>
                    (case EvaluateAsInt E of
                       Some (APValue_Int n) \<Rightarrow>
                         Inr \<lparr>Data = Some \<lparr>Var = VarDeclAt a, Value = n\<rparr>\<rparr>
                     | Some APValue_Other \<Rightarrow> Inr top_lattice
                     | None \<Rightarrow> Inr top_lattice)
                | None \<Rightarrow>
                    (case getNodeAs_Expr Nodes kJustAssignment of
                       Some J \<Rightarrow>
                         (case getNodeAs_Expr Nodes kRHS of
                            None \<Rightarrow> Inl (AssertionFailed ''RHS != nullptr'')
                          | Some RHS \<Rightarrow>
                              (case EvaluateAsInt RHS of
                                 Some (APValue_Int n) \<Rightarrow>
                                   Inr \<lparr>Data = Some \<lparr>Var = VarDeclAt a, Value = n\<rparr>\<rparr>
                               | Some APValue_Other \<Rightarrow> Inr top_lattice
                               | None \<Rightarrow> Inr top_lattice))
                     | None \<Rightarrow>
                         (case getNodeAs_Expr Nodes kAssignment of
                            Some A \<Rightarrow> Inr top_lattice
                          | None \<Rightarrow> Inr Element)))))"

definition initialElement :: ConstantPropagationLattice where
  "initialElement = bottom"

text \<open>
  Modelled from the spec: Clang's constant evaluator, which is not under src/, as far as
  the scenarios of the spec use it: an integer literal is a constant, a sum of constants
  is folded (\<^verbatim>\<open>2 + 3\<close> is 5), and anything else, such as a call, is not a constant.
  It only instantiates the \<open>Evaluator\<close> parameter at concrete inputs.
\<close>

fun foldConstant :: "Expr \<Rightarrow> int option" where
  "foldConstant (IntegerLiteral n) = Some n"
| "foldConstant (BinaryOperator Opc L R) =
     (if Opc = BO_Add then
        (case foldConstant L of
           None \<Rightarrow> None
         | Some l \<Rightarrow> (case foldConstant R of None \<Rightarrow> None | Some r \<Rightarrow> Some (l + r)))
      else None)"
| "foldConstant (ParenExpr E) = foldConstant E"
| "foldConstant E = None"

definition constantEvaluator :: Evaluator where
  "constantEvaluator E =
     (case foldConstant E of None \<Rightarrow> None | Some n \<Rightarrow> Some (APValue_Int (word_of_int n)))"

section \<open>The three states of an element\<close>

text \<open>
  \<^verbatim>\<open>MATCHER(IsUnknown)\<close> is \<^verbatim>\<open>arg == arg.bottom()\<close> and \<^verbatim>\<open>MATCHER(Varies)\<close> is
  \<^verbatim>\<open>arg == arg.top()\<close>. A known value is a present value whose variable is not null.
\<close>

definition IsUnknown :: "ConstantPropagationLattice \<Rightarrow> bool" where
  "IsUnknown arg = lattice_eq arg bottom"

definition Varies :: "ConstantPropagationLattice \<Rightarrow> bool" where
  "Varies arg = lattice_eq arg top_lattice"

definition isKnownValue :: "ConstantPropagationLattice \<Rightarrow> bool" where
  "isKnownValue L = (case Data L of None \<Rightarrow> False | Some vv \<Rightarrow> Var vv \<noteq> nullptr)"

text \<open>
  The elements that can arise: \<open>bottom\<close>, \<open>top\<close>, the receiver after a \<open>join\<close> of two such
  elements, and the output of \<open>transfer\<close> on such an element.
\<close>

inductive reachable :: "Evaluator \<Rightarrow> ConstantPropagationLattice \<Rightarrow> bool" for ev where
  reachable_bottom: "reachable ev bottom"
| reachable_top: "reachable ev top_lattice"
| reachable_join: "reachable ev X \<Longrightarrow> reachable ev Y \<Longrightarrow> reachable ev (snd (join X Y))"
| reachable_transfer: "reachable ev X \<Longrightarrow> transfer ev S X = Inr Y \<Longrightarrow> reachable ev Y"

section \<open>The dataflow equations\<close>

text \<open>
  Repeated \<open>join\<close>: the receiver after the elements of a list have been joined into it,
  one after the other. Merging the states of several predecessors is this, started
  from \<open>bottom\<close>.
\<close>

fun joinAll :: "ConstantPropagationLattice \<Rightarrow> ConstantPropagationLattice list
     \<Rightarrow> ConstantPropagationLattice" where
  "joinAll A [] = A"
| "joinAll A (B # Bs) = joinAll (snd (join A B)) Bs"

text \<open>
  Modelled from the spec: the control-flow graph and the block states of the fixpoint
  engine, which are not under src/. A graph is a list of blocks, a block is named by
  its index; each block has its statements in order and its predecessor and successor
  blocks. A block state holds the entry element, the element recorded immediately before
  each statement, and the exit element.
\<close>

record CFGBlock =
  Elements :: "Stmt list"
  Preds :: "nat list"
  Succs :: "nat list"

type_synonym CFG = "CFGBlock list"

record BlockState =
  EntryElement :: ConstantPropagationLattice
  Before :: "ConstantPropagationLattice list"
  ExitElement :: ConstantPropagationLattice

text \<open>
  Modelled from the spec: the fold of the transfer function across a block's statements
  in source order, recording for each statement the element as it stood immediately
  before it; the element after the fold is the exit element.
\<close>

fun transferBlock :: "Evaluator \<Rightarrow> Stmt list \<Rightarrow> ConstantPropagationLattice
     \<Rightarrow> error + (ConstantPropagationLattice list \<times> ConstantPropagationLattice)" where
  "transferBlock ev [] Element = Inr ([], Element)"
| "transferBlock ev (S # Ss) Element =
     (case transfer ev S Element of
        Inl e \<Rightarrow> Inl e
      | Inr Element' \<Rightarrow>
          (case transferBlock ev Ss Element' of
             Inl e \<Rightarrow> Inl e
           | Inr (Recorded, Exit) \<Rightarrow> Inr (Element # Recorded, Exit)))"

text \<open>
  Modelled from the spec: the merge at the entry of a block, a step of the fixpoint
  engine. The entry element is the supplied initial element for the entry block, and
  otherwise the join of all predecessor exit elements, started from \<open>bottom\<close>.
\<close>

definition blockEntry :: "CFG \<Rightarrow> nat \<Rightarrow> ConstantPropagationLattice \<Rightarrow> BlockState list \<Rightarrow> nat
     \<Rightarrow> ConstantPropagationLattice" where
  "blockEntry G Entry Init States b =
     (if b = Entry then Init
      else joinAll bottom (map (\<lambda>p. ExitElement (States ! p)) (Preds (G ! b))))"

text \<open>
  Modelled from the spec: a fixpoint is an assignment of block states where re-applying
  every join and transfer step produces no further change. This is the state in which the
  engine terminates, whatever the order in which its worklist was processed.
\<close>

definition blockStable :: "Evaluator \<Rightarrow> CFG \<Rightarrow> nat \<Rightarrow> ConstantPropagationLattice
     \<Rightarrow> BlockState list \<Rightarrow> nat \<Rightarrow> bool" where
  "blockStable ev G Entry Init States b \<longleftrightarrow>
     list_all (\<lambda>p. p < length G) (Preds (G ! b)) \<and>
     EntryElement (States ! b) = blockEntry G Entry Init States b \<and>
     transferBlock ev (Elements (G ! b)) (EntryElement (States ! b))
       = Inr (Before (States ! b), ExitElement (States ! b))"

definition isFixpoint :: "Evaluator \<Rightarrow> CFG \<Rightarrow> nat \<Rightarrow> ConstantPropagationLattice
     \<Rightarrow> BlockState list \<Rightarrow> bool" where
  "isFixpoint ev G Entry Init States \<longleftrightarrow>
     length States = length G \<and> Entry < length G \<and>
     list_all (blockStable ev G Entry Init States) [0..<length G]"

text \<open>
  Modelled from the spec: the result store. The program point \<open>(b, i)\<close> is the position
  immediately before statement \<open>i\<close> of block \<open>b\<close>; \<open>i\<close> equal to the number of statements
  is the end of the block.
\<close>

definition elementAt :: "BlockState list \<Rightarrow> nat \<times> nat \<Rightarrow> ConstantPropagationLattice option" where
  "elementAt States P =
     (case P of (b, i) \<Rightarrow>
        if b < length States then
          (if i < length (Before (States ! b)) then Some (Before (States ! b) ! i)
           else if i = length (Before (States ! b)) then Some (ExitElement (States ! b))
           else None)
        else None)"

text \<open>
  The function of the test \<^verbatim>\<open>SameAssignmentInBranches\<close>, one element per statement:
  \<^verbatim>\<open>void fun(bool b) { int target; if (b) { target = 2; } else { target = 2; } (void)0; }\<close>
  The parameter \<open>b\<close> is the declaration at address 1 and \<open>target\<close> the one at address 2.
  Block 0 declares \<open>target\<close> and branches on \<open>b\<close>, blocks 1 and 2 are the two arms, block 3
  is the code after the conditional. The annotated points are \<open>p1 = (0, 1)\<close>,
  \<open>pT = (1, 1)\<close>, \<open>pF = (2, 1)\<close> and \<open>p2 = (3, 1)\<close>.
\<close>

definition SameAssignmentInBranches :: CFG where
  "SameAssignmentInBranches =
     [\<lparr>Elements = [DeclStmt [VarDecl 2 True None],
                   ExprS (ImplicitCastExpr (DeclRefExpr (ToVarDecl 1)))],
       Preds = [], Succs = [1, 2]\<rparr>,
      \<lparr>Elements = [ExprS (BinaryOperator BO_Assign (DeclRefExpr (ToVarDecl 2)) (IntegerLiteral 2))],
       Preds = [0], Succs = [3]\<rparr>,
      \<lparr>Elements = [ExprS (BinaryOperator BO_Assign (DeclRefExpr (ToVarDecl 2)) (IntegerLiteral 2))],
       Preds = [0], Succs = [3]\<rparr>,
      \<lparr>Elements = [ExprS (CStyleCastExpr (IntegerLiteral 0))],
       Preds = [1, 2], Succs = []\<rparr>]"

text \<open>The block states of that function: the solution of its dataflow equations.\<close>

definition SameAssignmentInBranches_states :: "BlockState list" where
  "SameAssignmentInBranches_states =
     [\<lparr>EntryElement = bottom, Before = [bottom, bottom], ExitElement = bottom\<rparr>,
      \<lparr>EntryElement = bottom, Before = [bottom], ExitElement = known 2 2\<rparr>,
      \<lparr>EntryElement = bottom, Before = [bottom], ExitElement = known 2 2\<rparr>,
      \<lparr>EntryElement = known 2 2, Before = [known 2 2], ExitElement = known 2 2\<rparr>]"

section \<open>Basic facts about equality and join\<close>

lemma VarValue_eq_iff: "VarValue_eq x y \<longleftrightarrow> x = y"
  by (cases x, cases y) (simp add: VarValue_eq_def)

lemma Optional_eq_iff: "Optional_eq X Y \<longleftrightarrow> X = Y"
  by (simp add: Optional_eq_def VarValue_eq_iff split: option.splits)

lemma lattice_eq_iff: "lattice_eq A B \<longleftrightarrow> A = B"
  by (cases A, cases B) (simp add: lattice_eq_def Optional_eq_iff)

lemma joined_eq:
  "joined A B =
     (if A = B \<or> B = bottom \<or> A = top_lattice then A
      else if A = bottom then B else top_lattice)"
  by (simp add: joined_def join_def lattice_eq_iff)

lemma join_effect_eq:
  "fst (join A B) = (if A = B \<or> B = bottom \<or> A = top_lattice then Unchanged else Changed)"
  by (simp add: join_def lattice_eq_iff)

lemma bottom_neq_top: "bottom \<noteq> top_lattice"
  by (simp add: bottom_def top_lattice_def)

lemma lattice_le_iff: "lattice_le X Y \<longleftrightarrow> X = bottom \<or> Y = top_lattice \<or> X = Y"
  using bottom_neq_top by (auto simp: lattice_le_def lattice_eq_iff joined_eq)

lemma lattice_le_refl: "lattice_le X X"
  by (simp add: lattice_le_iff)

lemma lattice_le_antisym: "lattice_le X Y \<Longrightarrow> lattice_le Y X \<Longrightarrow> X = Y"
  using bottom_neq_top by (auto simp: lattice_le_iff)

lemma lattice_le_trans: "lattice_le X Y \<Longrightarrow> lattice_le Y Z \<Longrightarrow> lattice_le X Z"
  using bottom_neq_top by (auto simp: lattice_le_iff)

section \<open>Lattice laws\<close>

text \<open>
  C6. For all elements \<open>X\<close>, \<open>Y\<close>, \<open>Z\<close> of the lattice (reachable or not), the value left in
  the receiver by \<open>join\<close> is idempotent, commutative and associative, \<open>bottom\<close> is its
  identity and \<open>top\<close> is absorbing.
\<close>

theorem join_lattice_laws:
  "joined X X = X \<and>
   joined X Y = joined Y X \<and>
   joined (joined X Y) Z = joined X (joined Y Z) \<and>
   joined bottom X = X \<and>
   joined top_lattice X = top_lattice"
  using bottom_neq_top by (auto simp: joined_eq)

section \<open>What the matcher binds\<close>

lemmas k_defs = kVar_def kInit_def kJustAssignment_def kAssignment_def kRHS_def

lemma hasOperatorName_assign: "hasOperatorName ''='' Opc \<longleftrightarrow> Opc = BO_Assign"
  by (cases Opc) (simp_all add: hasOperatorName_def)

lemma refToVar_Some:
  "refToVar E B = Some B' \<longleftrightarrow> (\<exists>a. E = DeclRefExpr (ToVarDecl a) \<and> B' = B(kVar \<mapsto> VarDeclNode a))"
  by (cases "(E, B)" rule: refToVar.cases) auto

lemma declMatcher_Some:
  "declMatcher S B = Some B' \<longleftrightarrow>
     (\<exists>a E. S = DeclStmt [VarDecl a True (Some E)] \<and> B' = B(kInit \<mapsto> ExprNode E, kVar \<mapsto> VarDeclNode a))"
  by (cases "(S, B)" rule: declMatcher.cases) auto

lemma justAssignmentMatcher_Some:
  "justAssignmentMatcher S B = Some B' \<longleftrightarrow>
     (\<exists>a R. S = ExprS (BinaryOperator BO_Assign (DeclRefExpr (ToVarDecl a)) R) \<and>
        B' = B(kVar \<mapsto> VarDeclNode a, kRHS \<mapsto> ExprNode R,
               kJustAssignment \<mapsto> ExprNode (BinaryOperator BO_Assign (DeclRefExpr (ToVarDecl a)) R)))"
  by (cases "(S, B)" rule: justAssignmentMatcher.cases)
     (auto simp: hasOperatorName_assign refToVar_Some split: option.splits)

lemma assignmentMatcher_Some:
  "assignmentMatcher S B = Some B' \<longleftrightarrow>
     (\<exists>Opc a R. S = ExprS (BinaryOperator Opc (DeclRefExpr (ToVarDecl a)) R) \<and> isAssignmentOperator Opc \<and>
        B' = B(kVar \<mapsto> VarDeclNode a,
               kAssignment \<mapsto> ExprNode (BinaryOperator Opc (DeclRefExpr (ToVarDecl a)) R)))"
  by (cases "(S, B)" rule: assignmentMatcher.cases)
     (auto simp: refToVar_Some split: option.splits)


lemma isCompound_not_eq: "isCompoundAssignment Opc \<Longrightarrow> \<not> hasOperatorName ''='' Opc"
  by (simp add: isCompoundAssignment_def hasOperatorName_assign)

lemma match_DeclStmt:
  "match (DeclStmt [VarDecl a True (Some E)]) = [[kInit \<mapsto> ExprNode E, kVar \<mapsto> VarDeclNode a]]"
  by (simp add: match_def matcher_def)

lemma match_Assign:
  "match (ExprS (BinaryOperator BO_Assign (DeclRefExpr (ToVarDecl a)) R)) =
     [[kVar \<mapsto> VarDeclNode a, kRHS \<mapsto> ExprNode R,
       kJustAssignment \<mapsto> ExprNode (BinaryOperator BO_Assign (DeclRefExpr (ToVarDecl a)) R)]]"
  by (simp add: match_def matcher_def hasOperatorName_assign)

lemma match_CompoundAssign:
  "isCompoundAssignment Opc \<Longrightarrow>
   match (ExprS (BinaryOperator Opc (DeclRefExpr (ToVarDecl a)) R)) =
     [[kVar \<mapsto> VarDeclNode a,
       kAssignment \<mapsto> ExprNode (BinaryOperator Opc (DeclRefExpr (ToVarDecl a)) R)]]"
  by (simp add: match_def matcher_def isCompound_not_eq) (simp add: isCompoundAssignment_def)

lemma match_cases:
  "match S = [] \<or>
   (\<exists>a E. S = DeclStmt [VarDecl a True (Some E)]) \<or>
   (\<exists>a R. S = ExprS (BinaryOperator BO_Assign (DeclRefExpr (ToVarDecl a)) R)) \<or>
   (\<exists>Opc a R. S = ExprS (BinaryOperator Opc (DeclRefExpr (ToVarDecl a)) R) \<and> isCompoundAssignment Opc)"
proof (cases "matcher S Map.empty")
  case None
  then show ?thesis by (simp add: match_def)
next
  case (Some B)
  then consider "declMatcher S Map.empty = Some B"
    | "justAssignmentMatcher S Map.empty = Some B"
    | "justAssignmentMatcher S Map.empty = None" "assignmentMatcher S Map.empty = Some B"
    by (auto simp: matcher_def split: option.splits)
  then show ?thesis
  proof cases
    case 1
    then show ?thesis by (auto simp: declMatcher_Some)
  next
    case 2
    then show ?thesis by (auto simp: justAssignmentMatcher_Some)
  next
    case 3
    from 3(2) obtain Opc a R where
      S: "S = ExprS (BinaryOperator Opc (DeclRefExpr (ToVarDecl a)) R)" and A: "isAssignmentOperator Opc"
      by (auto simp: assignmentMatcher_Some)
    from 3(1) S have "Opc \<noteq> BO_Assign"
      by (auto simp: hasOperatorName_assign)
    with S A show ?thesis by (auto simp: isCompoundAssignment_def)
  qed
qed

lemma transfer_DeclStmt:
  "transfer ev (DeclStmt [VarDecl a True (Some E)]) L =
     (case ev E of Some (APValue_Int n) \<Rightarrow> Inr (known a n)
      | Some APValue_Other \<Rightarrow> Inr top_lattice | None \<Rightarrow> Inr top_lattice)"
  by (simp add: transfer_def match_DeclStmt getNodeAs_VarDecl_def getNodeAs_Expr_def k_defs known_def
      split: option.splits APValue.splits)

lemma transfer_Assign:
  "transfer ev (ExprS (BinaryOperator BO_Assign (DeclRefExpr (ToVarDecl a)) R)) L =
     (case ev R of Some (APValue_Int n) \<Rightarrow> Inr (known a n)
      | Some APValue_Other \<Rightarrow> Inr top_lattice | None \<Rightarrow> Inr top_lattice)"
  by (simp add: transfer_def match_Assign getNodeAs_VarDecl_def getNodeAs_Expr_def k_defs known_def
      split: option.splits APValue.splits)

lemma transfer_CompoundAssign:
  "isCompoundAssignment Opc \<Longrightarrow>
   transfer ev (ExprS (BinaryOperator Opc (DeclRefExpr (ToVarDecl a)) R)) L = Inr top_lattice"
  by (simp add: transfer_def match_CompoundAssign getNodeAs_VarDecl_def getNodeAs_Expr_def k_defs)

lemma transfer_no_match: "match S = [] \<Longrightarrow> transfer ev S L = Inr L"
  by (simp add: transfer_def)

lemma transfer_result_cases:
  "transfer ev S L = Inr L \<or> transfer ev S L = Inr top_lattice \<or>
   (\<exists>a n. transfer ev S L = Inr (known a n))"
proof -
  consider (none) "match S = []"
    | (decl) a E where "S = DeclStmt [VarDecl a True (Some E)]"
    | (assign) a R where "S = ExprS (BinaryOperator BO_Assign (DeclRefExpr (ToVarDecl a)) R)"
    | (compound) Opc a R where
        "S = ExprS (BinaryOperator Opc (DeclRefExpr (ToVarDecl a)) R)" "isCompoundAssignment Opc"
    using match_cases [of S] by blast
  then show ?thesis
  proof cases
    case none
    then show ?thesis by (simp add: transfer_no_match)
  next
    case decl
    have "transfer ev S L = Inr top_lattice \<or> (\<exists>n. transfer ev S L = Inr (known a n))"
      unfolding decl transfer_DeclStmt by (auto split: option.splits APValue.splits)
    then show ?thesis by blast
  next
    case assign
    have "transfer ev S L = Inr top_lattice \<or> (\<exists>n. transfer ev S L = Inr (known a n))"
      unfolding assign transfer_Assign by (auto split: option.splits APValue.splits)
    then show ?thesis by blast
  next
    case compound
    then show ?thesis by (simp add: transfer_CompoundAssign)
  qed
qed

lemma transfer_matched_constant:
  "match S \<noteq> [] \<Longrightarrow> transfer ev S L1 = transfer ev S L2"
  using match_cases [of S]
  by (auto simp: transfer_DeclStmt transfer_Assign transfer_CompoundAssign)

lemma transfer_mono:
  assumes "lattice_le L1 L2"
  shows "\<exists>L1' L2'. transfer ev S L1 = Inr L1' \<and> transfer ev S L2 = Inr L2' \<and> lattice_le L1' L2'"
proof (cases "match S = []")
  case True
  with assms show ?thesis by (simp add: transfer_no_match)
next
  case False
  from transfer_result_cases [of ev S L1] obtain L1' where 1: "transfer ev S L1 = Inr L1'"
    by auto
  with False have "transfer ev S L2 = Inr L1'"
    using transfer_matched_constant [of S ev L2 L1] by simp
  with 1 show ?thesis by (auto simp: lattice_le_refl)
qed

lemma match_DeclNoInit: "match (DeclStmt [VarDecl a isInt None]) = []"
  by (simp add: match_def matcher_def)

lemma match_ImplicitCast: "match (ExprS (ImplicitCastExpr E)) = []"
  by (simp add: match_def matcher_def)

lemma match_CStyleCast: "match (ExprS (CStyleCastExpr E)) = []"
  by (simp add: match_def matcher_def)

lemma constantEvaluator_literal:
  "constantEvaluator (IntegerLiteral n) = Some (APValue_Int (word_of_int n))"
  by (simp add: constantEvaluator_def)

lemmas scenario_transfer =
  transfer_no_match [OF match_DeclNoInit] transfer_no_match [OF match_ImplicitCast]
  transfer_no_match [OF match_CStyleCast] transfer_Assign constantEvaluator_literal

section \<open>The transfer rules\<close>

text \<open>
  C2. On a declaration statement of a single integer-typed variable whose initializer
  evaluates to a constant integer, \<open>transfer\<close> returns the known value of the declared
  variable with that constant, for every incoming element: what the element held before,
  also about another variable, is overwritten.
\<close>

theorem transfer_declaration_constant:
  "EvaluateAsInt E = Some (APValue_Int n) \<Longrightarrow>
   transfer EvaluateAsInt (DeclStmt [VarDecl a True (Some E)]) L = Inr (known a n)"
  by (simp add: transfer_DeclStmt)

text \<open>The declaration \<^verbatim>\<open>int other = 2;\<close> when \<open>target = 1\<close> is known.\<close>

theorem transfer_declaration_constant_witness:
  "constantEvaluator (IntegerLiteral 2) = Some (APValue_Int 2) \<and>
   transfer constantEvaluator (DeclStmt [VarDecl 2 True (Some (IntegerLiteral 2))]) (known 1 1)
     = Inr (known 2 2) \<and>
   known 2 2 \<noteq> known 1 1"
proof -
  have h: "constantEvaluator (IntegerLiteral 2) = Some (APValue_Int 2)"
    by (simp add: constantEvaluator_def)
  show ?thesis
    using h transfer_declaration_constant [where EvaluateAsInt = constantEvaluator
        and E = "IntegerLiteral 2" and n = 2 and a = 2 and L = "known 1 1"]
    by (simp add: known_def)
qed

text \<open>
  C3. On a simple assignment \<^verbatim>\<open>var = expr\<close>, for every incoming element, \<open>transfer\<close>
  returns the known value of the assigned variable when the right-hand side evaluates to
  a constant integer, and \<open>top\<close> otherwise; in both cases it returns an element, not an
  error.
\<close>

theorem transfer_simple_assignment:
  "transfer EvaluateAsInt (ExprS (BinaryOperator BO_Assign (DeclRefExpr (ToVarDecl a)) RHS)) L =
     (case EvaluateAsInt RHS of
        Some (APValue_Int n) \<Rightarrow> Inr (known a n)
      | Some APValue_Other \<Rightarrow> Inr top_lattice
      | None \<Rightarrow> Inr top_lattice)"
  by (rule transfer_Assign)

text \<open>The assignments \<^verbatim>\<open>target = 2 + 3\<close> and \<^verbatim>\<open>target = g()\<close>.\<close>

theorem transfer_simple_assignment_witness:
  "transfer constantEvaluator
     (ExprS (BinaryOperator BO_Assign (DeclRefExpr (ToVarDecl 1))
        (BinaryOperator BO_Add (IntegerLiteral 2) (IntegerLiteral 3)))) top_lattice
     = Inr (known 1 5) \<and>
   transfer constantEvaluator
     (ExprS (BinaryOperator BO_Assign (DeclRefExpr (ToVarDecl 1))
        (CallExpr (ImplicitCastExpr (DeclRefExpr (ToOtherDecl 7))) []))) (known 1 5)
     = Inr top_lattice"
  using transfer_simple_assignment [of constantEvaluator 1
          "BinaryOperator BO_Add (IntegerLiteral 2) (IntegerLiteral 3)" top_lattice]
        transfer_simple_assignment [of constantEvaluator 1
          "CallExpr (ImplicitCastExpr (DeclRefExpr (ToOtherDecl 7))) []" "known 1 5"]
  by (simp add: constantEvaluator_def)

text \<open>
  C4. On a compound assignment to a variable (\<^verbatim>\<open>var += expr\<close>, \<^verbatim>\<open>var -= expr\<close>, etc.),
  \<open>transfer\<close> returns \<open>top\<close> for every incoming element, also when the element holds a
  known value for that variable.
\<close>

theorem transfer_compound_assignment:
  "isCompoundAssignment Opc \<Longrightarrow>
   transfer EvaluateAsInt (ExprS (BinaryOperator Opc (DeclRefExpr (ToVarDecl a)) RHS)) L
     = Inr top_lattice"
  by (rule transfer_CompoundAssign)

text \<open>\<^verbatim>\<open>target += 2\<close> when \<open>target = 1\<close> is known: the result is \<open>top\<close>, not \<open>target = 3\<close>.\<close>

theorem transfer_compound_assignment_witness:
  "isCompoundAssignment BO_AddAssign \<and>
   transfer constantEvaluator
     (ExprS (BinaryOperator BO_AddAssign (DeclRefExpr (ToVarDecl 1)) (IntegerLiteral 2)))
     (known 1 1) = Inr top_lattice \<and>
   top_lattice \<noteq> known 1 3"
proof -
  have h: "isCompoundAssignment BO_AddAssign"
    by (simp add: isCompoundAssignment_def isAssignmentOperator_def)
  show ?thesis
    using h transfer_compound_assignment [OF h, of constantEvaluator 1 "IntegerLiteral 2" "known 1 1"]
    by (simp add: known_def top_lattice_def)
qed

text \<open>
  C5. On a statement that matches none of the three rules, \<open>transfer\<close> returns the
  incoming element unchanged, and it returns an element, not an error.
\<close>

theorem transfer_other_statement:
  "match S = [] \<Longrightarrow> transfer EvaluateAsInt S L = Inr L"
  by (rule transfer_no_match)

text \<open>The declaration \<^verbatim>\<open>int target;\<close> has no initializer and matches no rule.\<close>

theorem transfer_other_statement_witness:
  "match (DeclStmt [VarDecl 1 True None]) = [] \<and>
   transfer constantEvaluator (DeclStmt [VarDecl 1 True None]) (known 2 7) = Inr (known 2 7)"
proof -
  have h: "match (DeclStmt [VarDecl 1 True None]) = []"
    by (simp add: match_def matcher_def)
  show ?thesis
    using h transfer_other_statement [OF h, of constantEvaluator "known 2 7"] by simp
qed

text \<open>
  C10. On a statement that matches one of the three rules, the result of \<open>transfer\<close> is
  the same for every incoming element; with the identity on the other statements,
  \<open>transfer\<close> is monotone in the order induced by \<open>join\<close>, and never fails.
\<close>

theorem transfer_input_independent:
  "(match S \<noteq> [] \<longrightarrow> transfer EvaluateAsInt S L1 = transfer EvaluateAsInt S L2) \<and>
   (lattice_le L1 L2 \<longrightarrow>
      (\<exists>L1' L2'. transfer EvaluateAsInt S L1 = Inr L1' \<and> transfer EvaluateAsInt S L2 = Inr L2' \<and>
         lattice_le L1' L2'))"
  using transfer_matched_constant [of S EvaluateAsInt L1 L2] transfer_mono [of L1 L2 EvaluateAsInt S]
  by blast

text \<open>The assignment \<^verbatim>\<open>target = 2\<close> on \<open>bottom\<close> and on a known value.\<close>

theorem transfer_input_independent_witness:
  "match (ExprS (BinaryOperator BO_Assign (DeclRefExpr (ToVarDecl 1)) (IntegerLiteral 2))) \<noteq> [] \<and>
   lattice_le bottom (known 1 1) \<and>
   transfer constantEvaluator
     (ExprS (BinaryOperator BO_Assign (DeclRefExpr (ToVarDecl 1)) (IntegerLiteral 2))) bottom =
   transfer constantEvaluator
     (ExprS (BinaryOperator BO_Assign (DeclRefExpr (ToVarDecl 1)) (IntegerLiteral 2))) (known 1 1) \<and>
   (\<exists>L1' L2'.
      transfer constantEvaluator
        (ExprS (BinaryOperator BO_Assign (DeclRefExpr (ToVarDecl 1)) (IntegerLiteral 2))) bottom
        = Inr L1' \<and>
      transfer constantEvaluator
        (ExprS (BinaryOperator BO_Assign (DeclRefExpr (ToVarDecl 1)) (IntegerLiteral 2))) (known 1 1)
        = Inr L2' \<and>
      lattice_le L1' L2')"
proof -
  have h1: "match (ExprS (BinaryOperator BO_Assign (DeclRefExpr (ToVarDecl 1)) (IntegerLiteral 2))) \<noteq> []"
    by (simp add: match_Assign)
  have h2: "lattice_le bottom (known 1 1)"
    by (simp add: lattice_le_iff)
  show ?thesis
    using h1 h2 transfer_input_independent [of
        "ExprS (BinaryOperator BO_Assign (DeclRefExpr (ToVarDecl 1)) (IntegerLiteral 2))"
        constantEvaluator bottom "known 1 1"]
    by blast
qed

section \<open>Reachable elements\<close>

lemma reachable_shape:
  "reachable ev L \<Longrightarrow> L = bottom \<or> L = top_lattice \<or> (\<exists>a n. L = known a n)"
proof (induction rule: reachable.induct)
  case reachable_bottom
  show ?case by simp
next
  case reachable_top
  show ?case by simp
next
  case (reachable_join X Y)
  have "snd (join X Y) = X \<or> snd (join X Y) = Y \<or> snd (join X Y) = top_lattice"
    using joined_eq [of X Y] by (auto simp: joined_def split: if_splits)
  with reachable_join.IH show ?case by auto
next
  case (reachable_transfer X S Y)
  from transfer_result_cases [of ev S X] reachable_transfer.hyps(2)
  have "Y = X \<or> Y = top_lattice \<or> (\<exists>a n. Y = known a n)" by auto
  with reachable_transfer.IH show ?case by auto
qed

lemma three_states_bottom: "IsUnknown bottom \<and> \<not> Varies bottom \<and> \<not> isKnownValue bottom"
  by (simp add: IsUnknown_def Varies_def isKnownValue_def lattice_eq_iff bottom_def top_lattice_def)

lemma three_states_top: "\<not> IsUnknown top_lattice \<and> Varies top_lattice \<and> \<not> isKnownValue top_lattice"
  by (simp add: IsUnknown_def Varies_def isKnownValue_def lattice_eq_iff bottom_def top_lattice_def)

lemma three_states_known:
  "\<not> IsUnknown (known a n) \<and> \<not> Varies (known a n) \<and> isKnownValue (known a n)"
  by (simp add: IsUnknown_def Varies_def isKnownValue_def lattice_eq_iff bottom_def top_lattice_def
      known_def)

lemma nonnull_not_sentinel:
  "Data L = Some vv \<Longrightarrow> Var vv \<noteq> nullptr \<Longrightarrow> \<not> Varies L \<and> \<not> IsUnknown L"
  by (auto simp: IsUnknown_def Varies_def lattice_eq_iff bottom_def top_lattice_def)

text \<open>
  C9. Every element reachable through \<open>bottom\<close>, \<open>top\<close>, \<open>join\<close> and \<open>transfer\<close> is in
  exactly one of the three states bottom, top and known value; a known value is a
  variable that is not null with its constant, and an element whose variable is not null
  is neither \<open>top\<close> nor \<open>bottom\<close>.
\<close>

theorem reachable_three_states:
  "reachable EvaluateAsInt L \<Longrightarrow>
     ((IsUnknown L \<and> \<not> Varies L \<and> \<not> isKnownValue L) \<or>
      (Varies L \<and> \<not> IsUnknown L \<and> \<not> isKnownValue L) \<or>
      (isKnownValue L \<and> \<not> IsUnknown L \<and> \<not> Varies L)) \<and>
     (isKnownValue L \<longleftrightarrow> (\<exists>a n. L = known a n)) \<and>
     (\<forall>vv. Data L = Some vv \<and> Var vv \<noteq> nullptr \<longrightarrow> \<not> Varies L \<and> \<not> IsUnknown L)"
proof -
  assume "reachable EvaluateAsInt L"
  then have shape: "L = bottom \<or> L = top_lattice \<or> (\<exists>a n. L = known a n)"
    by (rule reachable_shape)
  then have "(IsUnknown L \<and> \<not> Varies L \<and> \<not> isKnownValue L) \<or>
      (Varies L \<and> \<not> IsUnknown L \<and> \<not> isKnownValue L) \<or>
      (isKnownValue L \<and> \<not> IsUnknown L \<and> \<not> Varies L)"
    using three_states_bottom three_states_top three_states_known by blast
  moreover from shape have "isKnownValue L \<longleftrightarrow> (\<exists>a n. L = known a n)"
    using three_states_bottom three_states_top three_states_known by blast
  moreover have "\<forall>vv. Data L = Some vv \<and> Var vv \<noteq> nullptr \<longrightarrow> \<not> Varies L \<and> \<not> IsUnknown L"
    using nonnull_not_sentinel by blast
  ultimately show ?thesis by blast
qed

text \<open>The element after \<^verbatim>\<open>target = 2\<close>, reached from \<open>bottom\<close>.\<close>

theorem reachable_three_states_witness:
  "reachable constantEvaluator (known 1 2) \<and>
   isKnownValue (known 1 2) \<and> \<not> IsUnknown (known 1 2) \<and> \<not> Varies (known 1 2) \<and>
   Data (known 1 2) = Some \<lparr>Var = VarDeclAt 1, Value = 2\<rparr> \<and>
   Var \<lparr>Var = VarDeclAt 1, Value = 2\<rparr> \<noteq> nullptr"
proof -
  have t: "transfer constantEvaluator
      (ExprS (BinaryOperator BO_Assign (DeclRefExpr (ToVarDecl 1)) (IntegerLiteral 2))) bottom
      = Inr (known 1 2)"
    by (simp add: transfer_Assign constantEvaluator_def)
  have h: "reachable constantEvaluator (known 1 2)"
    by (rule reachable_transfer [OF reachable_bottom t])
  have d: "Data (known 1 2) = Some \<lparr>Var = VarDeclAt 1, Value = 2\<rparr>"
    by (simp add: known_def)
  show ?thesis
    using h d reachable_three_states [OF h] three_states_known [of 1 2] by simp
qed

section \<open>Join is the least upper bound\<close>

lemma joined_upper: "lattice_le A (joined A B) \<and> lattice_le B (joined A B)"
  using bottom_neq_top by (auto simp: lattice_le_iff joined_eq)

lemma joined_least: "lattice_le A C \<Longrightarrow> lattice_le B C \<Longrightarrow> lattice_le (joined A B) C"
  using bottom_neq_top by (auto simp: lattice_le_iff joined_eq)

lemma joined_le_iff: "lattice_le (joined A B) C \<longleftrightarrow> lattice_le A C \<and> lattice_le B C"
  using joined_upper [of A B] joined_least [of A C B] lattice_le_trans by blast

lemma joinAll_le_iff:
  "lattice_le (joinAll A Bs) C \<longleftrightarrow> lattice_le A C \<and> (\<forall>B \<in> set Bs. lattice_le B C)"
proof (induction Bs arbitrary: A)
  case Nil
  show ?case by simp
next
  case (Cons B Bs)
  have "lattice_le (joinAll A (B # Bs)) C \<longleftrightarrow>
        lattice_le (joined A B) C \<and> (\<forall>B' \<in> set Bs. lattice_le B' C)"
    using Cons.IH [of "joined A B"] by (simp add: joined_def)
  then show ?case by (auto simp: joined_le_iff)
qed

lemma joinAll_agree:
  assumes "Bs \<noteq> []" and "\<forall>B \<in> set Bs. B = K"
  shows "joinAll bottom Bs = K"
proof (rule lattice_le_antisym)
  show "lattice_le (joinAll bottom Bs) K"
    using assms(2) unfolding joinAll_le_iff by (auto simp: lattice_le_iff)
next
  from assms have "K \<in> set Bs" by (cases Bs) auto
  moreover have "lattice_le (joinAll bottom Bs) (joinAll bottom Bs)" by (rule lattice_le_refl)
  ultimately show "lattice_le K (joinAll bottom Bs)"
    by (simp add: joinAll_le_iff)
qed

lemma joinAll_disagree:
  assumes "X \<in> set Bs" and "Y \<in> set Bs" and "X \<noteq> Y" and "X \<noteq> bottom" and "Y \<noteq> bottom"
  shows "joinAll bottom Bs = top_lattice"
proof -
  have "lattice_le (joinAll bottom Bs) (joinAll bottom Bs)" by (rule lattice_le_refl)
  with assms(1,2) have "lattice_le X (joinAll bottom Bs)" "lattice_le Y (joinAll bottom Bs)"
    by (simp_all add: joinAll_le_iff)
  with assms(3-5) show ?thesis by (auto simp: lattice_le_iff)
qed

lemma known_inject: "known a v = known b w \<longleftrightarrow> a = b \<and> v = w"
  by (simp add: known_def)

lemma known_neq_bottom: "known a v \<noteq> bottom"
  by (simp add: known_def bottom_def)

lemma known_neq_top: "known a v \<noteq> top_lattice"
  by (simp add: known_def top_lattice_def)

text \<open>
  C7. The join of two known values is that known value when they are equal (same
  variable, same constant) and \<open>top\<close> when they differ. Hence merging predecessor states
  that all hold the same known value gives that value, and merging predecessor states
  among which two known values differ gives \<open>top\<close>.
\<close>

theorem join_known_values:
  "snd (join (known a v) (known b w)) = (if a = b \<and> v = w then known a v else top_lattice) \<and>
   (Bs \<noteq> [] \<and> (\<forall>B \<in> set Bs. B = known a v) \<longrightarrow> joinAll bottom Bs = known a v) \<and>
   (known a v \<in> set Bs \<and> known b w \<in> set Bs \<and> (a \<noteq> b \<or> v \<noteq> w)
      \<longrightarrow> joinAll bottom Bs = top_lattice)"
proof -
  have "snd (join (known a v) (known b w)) = (if a = b \<and> v = w then known a v else top_lattice)"
    using joined_eq [of "known a v" "known b w"]
    by (simp add: joined_def known_inject known_neq_bottom known_neq_top)
  moreover have "Bs \<noteq> [] \<and> (\<forall>B \<in> set Bs. B = known a v) \<longrightarrow> joinAll bottom Bs = known a v"
    using joinAll_agree [of Bs "known a v"] by blast
  moreover have "known a v \<in> set Bs \<and> known b w \<in> set Bs \<and> (a \<noteq> b \<or> v \<noteq> w)
      \<longrightarrow> joinAll bottom Bs = top_lattice"
    using joinAll_disagree [of "known a v" Bs "known b w"]
    by (auto simp: known_inject known_neq_bottom)
  ultimately show ?thesis by blast
qed

text \<open>Two arms that assign 2 and 2, and two arms that assign 1 and 2.\<close>

theorem join_known_values_witness:
  "snd (join (known 1 2) (known 1 2)) = known 1 2 \<and>
   joinAll bottom [known 1 2, known 1 2] = known 1 2 \<and>
   snd (join (known 1 1) (known 1 2)) = top_lattice \<and>
   joinAll bottom [known 1 1, known 1 2] = top_lattice"
  using join_known_values [of 1 2 1 2 "[known 1 2, known 1 2]"]
        join_known_values [of 1 1 1 2 "[known 1 1, known 1 2]"]
  by simp

lemma flat_le_refl: "flat_le X X"
  by (simp add: flat_le_def)

lemma flat_le_antisym: "flat_le X Y \<Longrightarrow> flat_le Y X \<Longrightarrow> X = Y"
  using bottom_neq_top by (auto simp: flat_le_def)

lemma flat_le_trans: "flat_le X Y \<Longrightarrow> flat_le Y Z \<Longrightarrow> flat_le X Z"
  using bottom_neq_top by (auto simp: flat_le_def)

lemma join_flat_upper: "flat_le A (snd (join A B)) \<and> flat_le B (snd (join A B))"
  using bottom_neq_top joined_eq [of A B] by (auto simp: flat_le_def joined_def)

lemma join_flat_least: "flat_le A C \<Longrightarrow> flat_le B C \<Longrightarrow> flat_le (snd (join A B)) C"
  using bottom_neq_top joined_eq [of A B] by (auto simp: flat_le_def joined_def)

lemma flat_lub_unique:
  assumes "flat_le A U" and "flat_le B U"
    and "\<forall>C. flat_le A C \<and> flat_le B C \<longrightarrow> flat_le U C"
  shows "U = snd (join A B)"
proof (rule flat_le_antisym)
  show "flat_le U (snd (join A B))"
    using assms(3) join_flat_upper [of A B] by blast
  show "flat_le (snd (join A B)) U"
    using assms(1,2) by (rule join_flat_least)
qed

lemma lattice_le_is_flat_le: "lattice_le X Y \<longleftrightarrow> flat_le X Y"
  by (simp add: lattice_le_iff flat_le_def)

text \<open>
  C8. For all elements \<open>A\<close> and \<open>B\<close>, \<^verbatim>\<open>A.join(B)\<close> returns \<open>Changed\<close> exactly when the
  receiver after the call is not equal (by \<^verbatim>\<open>operator==\<close>) to the receiver before it,
  and the receiver after the call is the least upper bound of \<open>A\<close> and \<open>B\<close> in the order
  \<open>flat_le\<close> of the lattice (bottom below everything, top above everything, other elements
  only below themselves): it is above both, and below every element that is above both.
  The order is antisymmetric, so this fixes the receiver.
\<close>

theorem join_effect_and_lub:
  "(fst (join A B) = Changed \<longleftrightarrow> \<not> lattice_eq (snd (join A B)) A) \<and>
   flat_le A (snd (join A B)) \<and>
   flat_le B (snd (join A B)) \<and>
   (\<forall>C. flat_le A C \<and> flat_le B C \<longrightarrow> flat_le (snd (join A B)) C)"
proof -
  have "fst (join A B) = Changed \<longleftrightarrow> \<not> lattice_eq (snd (join A B)) A"
    using bottom_neq_top joined_eq [of A B] join_effect_eq [of A B]
    by (auto simp: joined_def lattice_eq_iff split: if_splits)
  moreover have "flat_le A (snd (join A B))" "flat_le B (snd (join A B))"
    using join_flat_upper [of A B] by simp_all
  moreover have "\<forall>C. flat_le A C \<and> flat_le B C \<longrightarrow> flat_le (snd (join A B)) C"
    using join_flat_least [of A _ B] by blast
  ultimately show ?thesis by blast
qed

text \<open>
  Joining two different known values changes the receiver to \<open>top\<close>, and joining a known
  value into \<open>bottom\<close> changes the receiver to that value, which is below the upper bound
  \<open>top\<close> of the two.
\<close>

theorem join_effect_and_lub_witness:
  "flat_le (known 1 1) top_lattice \<and> flat_le (known 1 2) top_lattice \<and>
   fst (join (known 1 1) (known 1 2)) = Changed \<and>
   snd (join (known 1 1) (known 1 2)) = top_lattice \<and>
   flat_le (snd (join (known 1 1) (known 1 2))) top_lattice \<and>
   flat_le bottom (known 1 2) \<and> flat_le (known 1 2) (known 1 2) \<and>
   fst (join bottom (known 1 2)) = Changed \<and>
   snd (join bottom (known 1 2)) = known 1 2 \<and>
   flat_le (snd (join bottom (known 1 2))) (known 1 2)"
proof -
  have h1: "flat_le (known 1 1) top_lattice \<and> flat_le (known 1 2) top_lattice"
    by (simp add: flat_le_def)
  have h2: "flat_le bottom (known 1 2) \<and> flat_le (known 1 2) (known 1 2)"
    by (simp add: flat_le_def)
  show ?thesis
    using h1 h2 join_effect_and_lub [of "known 1 1" "known 1 2"]
      join_effect_and_lub [of bottom "known 1 2"]
    by (simp add: join_def lattice_eq_iff known_def top_lattice_def bottom_def)
qed

section \<open>The same assignment in both branches\<close>

lemmas lattice_values = join_def lattice_eq_iff known_def bottom_def top_lattice_def

lemma SameAssignment_states_fixpoint:
  "isFixpoint constantEvaluator SameAssignmentInBranches 0 initialElement
     SameAssignmentInBranches_states"
  by (simp add: isFixpoint_def blockStable_def blockEntry_def SameAssignmentInBranches_def
      SameAssignmentInBranches_states_def scenario_transfer initialElement_def lattice_values)

lemma SameAssignment_fixpoint_unique:
  assumes "isFixpoint constantEvaluator SameAssignmentInBranches 0 initialElement States"
  shows "States = SameAssignmentInBranches_states"
proof -
  have G: "length SameAssignmentInBranches = 4"
    by (simp add: SameAssignmentInBranches_def)
  have upt4: "[0..<4] = [0, 1, 2, 3]"
    by (simp add: upt_rec)
  from assms have len: "length States = 4"
    by (simp add: isFixpoint_def G)
  from assms have
    "list_all (blockStable constantEvaluator SameAssignmentInBranches 0 initialElement States)
       [0, 1, 2, 3]"
    unfolding isFixpoint_def G upt4 by blast
  then have b0: "blockStable constantEvaluator SameAssignmentInBranches 0 initialElement States 0"
    and b1: "blockStable constantEvaluator SameAssignmentInBranches 0 initialElement States 1"
    and b2: "blockStable constantEvaluator SameAssignmentInBranches 0 initialElement States 2"
    and b3: "blockStable constantEvaluator SameAssignmentInBranches 0 initialElement States 3"
    by simp_all
  from len obtain s0 s1 s2 s3 where St: "States = [s0, s1, s2, s3]"
    by (auto simp: eval_nat_numeral length_Suc_conv)
  from b0 have s0: "s0 = \<lparr>EntryElement = bottom, Before = [bottom, bottom], ExitElement = bottom\<rparr>"
    by (cases s0)
       (simp add: St blockStable_def blockEntry_def SameAssignmentInBranches_def scenario_transfer
          initialElement_def)
  from b1 s0 have s1: "s1 = \<lparr>EntryElement = bottom, Before = [bottom], ExitElement = known 2 2\<rparr>"
    by (cases s1)
       (simp add: St blockStable_def blockEntry_def SameAssignmentInBranches_def scenario_transfer
          lattice_values)
  from b2 s0 have s2: "s2 = \<lparr>EntryElement = bottom, Before = [bottom], ExitElement = known 2 2\<rparr>"
    by (cases s2)
       (simp add: St blockStable_def blockEntry_def SameAssignmentInBranches_def scenario_transfer
          lattice_values)
  from b3 s1 s2 have s3:
    "s3 = \<lparr>EntryElement = known 2 2, Before = [known 2 2], ExitElement = known 2 2\<rparr>"
    by (cases s3)
       (simp add: St blockStable_def blockEntry_def SameAssignmentInBranches_def scenario_transfer
          lattice_values)
  from St s0 s1 s2 s3 show ?thesis
    by (simp add: SameAssignmentInBranches_states_def)
qed

text \<open>
  C1. (as amended) In the function that declares \<open>target\<close> without an initializer and
  assigns it the constant 2 on both arms of a conditional, every solution of the dataflow
  equations has \<open>bottom\<close> at the point before the branch (the declaration matches no rule
  and the initial element is \<open>bottom\<close>), the known value \<open>target = 2\<close> at both points
  inside the arms, and the known value \<open>target = 2\<close> at the point after the merge.
\<close>

theorem SameAssignmentInBranches_points:
  "isFixpoint constantEvaluator SameAssignmentInBranches 0 initialElement States \<Longrightarrow>
     elementAt States (0, 1) = Some bottom \<and>
     elementAt States (1, 1) = Some (known 2 2) \<and>
     elementAt States (2, 1) = Some (known 2 2) \<and>
     elementAt States (3, 1) = Some (known 2 2)"
  by (drule SameAssignment_fixpoint_unique)
     (simp add: elementAt_def SameAssignmentInBranches_states_def)

text \<open>The solution exists: the block states given above satisfy the equations.\<close>

theorem SameAssignmentInBranches_points_witness:
  "isFixpoint constantEvaluator SameAssignmentInBranches 0 initialElement
     SameAssignmentInBranches_states \<and>
   elementAt SameAssignmentInBranches_states (0, 1) = Some bottom \<and>
   elementAt SameAssignmentInBranches_states (1, 1) = Some (known 2 2) \<and>
   elementAt SameAssignmentInBranches_states (2, 1) = Some (known 2 2) \<and>
   elementAt SameAssignmentInBranches_states (3, 1) = Some (known 2 2)"
  using SameAssignment_states_fixpoint
    SameAssignmentInBranches_points [OF SameAssignment_states_fixpoint]
  by simp

text \<open>
  C1 as stated fails: at the solution of the equations the element before the branch is
  not \<open>top\<close>, so the four values the claim lists do not hold together.
\<close>

theorem SameAssignmentInBranches_pre_branch_not_top:
  "isFixpoint constantEvaluator SameAssignmentInBranches 0 initialElement
     SameAssignmentInBranches_states \<and>
   \<not> (elementAt SameAssignmentInBranches_states (0, 1) = Some top_lattice \<and>
      elementAt SameAssignmentInBranches_states (1, 1) = Some (known 2 2) \<and>
      elementAt SameAssignmentInBranches_states (2, 1) = Some (known 2 2) \<and>
      elementAt SameAssignmentInBranches_states (3, 1) = Some (known 2 2))"
  using SameAssignment_states_fixpoint
  by (simp add: elementAt_def SameAssignmentInBranches_states_def bottom_def top_lattice_def)

end
